theory Spec2Isabelle
  imports Main "HOL-Library.Word"
begin

section \<open>The AIFirewallFHE contract\<close>

text \<open>
  A shallow embedding of the Solidity contract \<^verbatim>\<open>AIFirewallFHE\<close>. Storage is a record
  that every function receives and returns updated; \<^verbatim>\<open>msg.sender\<close> and
  \<^verbatim>\<open>block.timestamp\<close> are explicit arguments; a \<^verbatim>\<open>revert\<close> is the left
  summand of the result, and since a reverted transaction rolls its writes back, the left
  summand carries no state. Emitted events and the call to the decryption oracle are
  returned as a list, in program order.
\<close>

subsection \<open>Value types\<close>

type_synonym address = "160 word"
type_synonym uint256 = "256 word"
type_synonym uint32 = "32 word"
type_synonym bytes32 = "256 word"
type_synonym bytes = "8 word list"

text \<open>
  \<^verbatim>\<open>euint32\<close> and \<^verbatim>\<open>ebool\<close> are user-defined value types over \<^verbatim>\<open>bytes32\<close>:
  a handle naming a ciphertext held by the coprocessor. The contract never looks inside.
\<close>

type_synonym euint32 = bytes32
type_synonym ebool = bytes32

subsection \<open>Storage\<close>

record Batch =
  id' :: uint256
  active :: bool
  transactionCount :: uint256
  encryptedTotalValue :: euint32
  encryptedMaxValue :: euint32
  encryptedMinValue :: euint32
  encryptedSuspiciousCount :: euint32

record DecryptionContext =
  batchId :: uint256
  stateHash :: bytes32
  processed :: bool

text \<open>
  A Solidity \<^verbatim>\<open>mapping\<close> is total: a key never written reads as the zero value of
  the value type. So the mappings are functions, not partial maps.
\<close>

record state =
  owner :: address
  isProvider :: "address \<Rightarrow> bool"
  lastSubmissionTime :: "address \<Rightarrow> uint256"
  lastDecryptionRequestTime :: "address \<Rightarrow> uint256"
  cooldownSeconds :: uint256
  paused :: bool
  currentBatchId :: uint256
  batches :: "uint256 \<Rightarrow> Batch"
  decryptionContexts :: "uint256 \<Rightarrow> DecryptionContext"

definition emptyBatch :: Batch where
  "emptyBatch = \<lparr>id' = 0, active = False, transactionCount = 0, encryptedTotalValue = 0,
     encryptedMaxValue = 0, encryptedMinValue = 0, encryptedSuspiciousCount = 0\<rparr>"

definition emptyContext :: DecryptionContext where
  "emptyContext = \<lparr>batchId = 0, stateHash = 0, processed = False\<rparr>"

subsection \<open>Errors, events, external calls\<close>

text \<open>
  The nine custom errors the contract declares, then \<open>Panic\<close> for the checked arithmetic
  of Solidity 0.8 (an overflowing \<^verbatim>\<open>+\<close> or \<^verbatim>\<open>++\<close> reverts), and \<open>DecodeFailed\<close> for
  a revert inside \<^verbatim>\<open>slice\<close> or \<^verbatim>\<open>abi.decode\<close> on a payload that is too short.
\<close>

datatype error =
    NotOwner | NotProvider | Paused | CooldownActive | InvalidBatch | BatchNotActive
  | ReplayDetected | StateMismatch | InvalidProof
  | Panic | DecodeFailed

datatype effect =
    OwnershipTransferred address address
  | ProviderAdded address
  | ProviderRemoved address
  | CooldownSecondsUpdated uint256 uint256
  | PausedContract address
  | UnpausedContract address
  | BatchOpened uint256
  | BatchClosed uint256 uint256
  | TransactionAnalyzed uint256 uint256
  | DecryptionRequested uint256 uint256
  | DecryptionCompleted uint256 uint256 uint256 uint256 uint256 uint256
  | RequestDecryption "bytes32 list"

text \<open>
  The first eleven constructors are the contract's events. \<open>RequestDecryption cts\<close> records
  the external call \<^verbatim>\<open>FHE.requestDecryption(cts, this.myCallback.selector)\<close>.
\<close>

type_synonym outcome = "error + state \<times> effect list"

subsection \<open>The imported capability\<close>

text \<open>
  The library \<^verbatim>\<open>FHE\<close>, \<^verbatim>\<open>keccak256\<close> and the contract's own address are not part of
  the contract's code. They are parameters, taken as total functions: every function
  below that calls one takes an \<open>env\<close>, and every theorem with a variable \<open>E\<close> holds
  for all of them.
\<close>

record env =
  FHE_asEuint32 :: "uint32 \<Rightarrow> euint32"
  FHE_add :: "euint32 \<Rightarrow> euint32 \<Rightarrow> euint32"
  FHE_max :: "euint32 \<Rightarrow> euint32 \<Rightarrow> euint32"
  FHE_min :: "euint32 \<Rightarrow> euint32 \<Rightarrow> euint32"
  FHE_ge :: "euint32 \<Rightarrow> euint32 \<Rightarrow> ebool"
  FHE_ite :: "ebool \<Rightarrow> euint32 \<Rightarrow> euint32 \<Rightarrow> euint32"
  FHE_isInitialized :: "euint32 \<Rightarrow> bool"
  FHE_checkSignatures :: "uint256 \<Rightarrow> bytes \<Rightarrow> bytes \<Rightarrow> bool"
  keccak256 :: "uint256 list \<Rightarrow> bytes32"
  thisAddress :: address

text \<open>\<^verbatim>\<open>FHE.toBytes32\<close> unwraps the handle.\<close>

definition toBytes32 :: "euint32 \<Rightarrow> bytes32" where
  "toBytes32 e = e"

text \<open>
  \<^verbatim>\<open>abi.encode(cts, address(this))\<close>, read in 32-byte slots: the offset of the dynamic
  array (two head slots, \<open>0x40\<close>), the address left-padded, the array length, the elements.
\<close>

definition abi_encode :: "bytes32 list \<Rightarrow> address \<Rightarrow> uint256 list" where
  "abi_encode cts a = [0x40, ucast a, of_nat (length cts)] @ cts"

definition hashCiphertexts :: "env \<Rightarrow> bytes32 list \<Rightarrow> bytes32" where
  "hashCiphertexts E cts = keccak256 E (abi_encode cts (thisAddress E))"

text \<open>
  \<^verbatim>\<open>cleartexts.slice(start, len)\<close> followed by \<^verbatim>\<open>abi.decode(..., (uint256))\<close>: the
  32 bytes at \<open>start\<close>, big-endian. Both revert when the payload has fewer than
  \<open>start + len\<close> bytes.
\<close>

definition slice :: "bytes \<Rightarrow> nat \<Rightarrow> nat \<Rightarrow> bytes option" where
  "slice bs start len =
     (if start + len \<le> length bs then Some (take len (drop start bs)) else None)"

definition abi_decode_uint256 :: "bytes \<Rightarrow> uint256 option" where
  "abi_decode_uint256 bs =
     (if length bs < 32 then None
      else Some (foldl (\<lambda>acc b. acc * 256 + ucast b) 0 (take 32 bs)))"

definition decodeAt :: "bytes \<Rightarrow> nat \<Rightarrow> uint256 option" where
  "decodeAt cleartexts start =
     (case slice cleartexts start 32 of
        None \<Rightarrow> None
      | Some bs \<Rightarrow> abi_decode_uint256 bs)"

subsection \<open>Constructor and the owner's registry functions\<close>

text \<open>
  The storage after deployment: \<open>cooldownSeconds\<close> has its initialiser 30, everything
  else except the owner is zero. The constructor's event is left out. Modifiers run in
  the order they are written, before the body.
\<close>

definition constructor :: "address \<Rightarrow> state" where
  "constructor sender =
     \<lparr>owner = sender, isProvider = (\<lambda>_. False), lastSubmissionTime = (\<lambda>_. 0),
      lastDecryptionRequestTime = (\<lambda>_. 0), cooldownSeconds = 30, paused = False,
      currentBatchId = 0, batches = (\<lambda>_. emptyBatch),
      decryptionContexts = (\<lambda>_. emptyContext)\<rparr>"

definition transferOwnership :: "address \<Rightarrow> state \<Rightarrow> address \<Rightarrow> outcome" where
  "transferOwnership sender s newOwner =
     (if sender \<noteq> owner s then Inl NotOwner
      else Inr (s\<lparr>owner := newOwner\<rparr>, [OwnershipTransferred (owner s) newOwner]))"

definition addProvider :: "address \<Rightarrow> state \<Rightarrow> address \<Rightarrow> outcome" where
  "addProvider sender s provider =
     (if sender \<noteq> owner s then Inl NotOwner
      else Inr (s\<lparr>isProvider := (isProvider s)(provider := True)\<rparr>, [ProviderAdded provider]))"

definition removeProvider :: "address \<Rightarrow> state \<Rightarrow> address \<Rightarrow> outcome" where
  "removeProvider sender s provider =
     (if sender \<noteq> owner s then Inl NotOwner
      else Inr (s\<lparr>isProvider := (isProvider s)(provider := False)\<rparr>,
                [ProviderRemoved provider]))"

definition setCooldownSeconds :: "address \<Rightarrow> state \<Rightarrow> uint256 \<Rightarrow> outcome" where
  "setCooldownSeconds sender s newCooldownSeconds =
     (if sender \<noteq> owner s then Inl NotOwner
      else Inr (s\<lparr>cooldownSeconds := newCooldownSeconds\<rparr>,
                [CooldownSecondsUpdated (cooldownSeconds s) newCooldownSeconds]))"

definition pause :: "address \<Rightarrow> state \<Rightarrow> outcome" where
  "pause sender s =
     (if sender \<noteq> owner s then Inl NotOwner
      else if paused s then Inl Paused
      else Inr (s\<lparr>paused := True\<rparr>, [PausedContract sender]))"

definition unpause :: "address \<Rightarrow> state \<Rightarrow> outcome" where
  "unpause sender s =
     (if sender \<noteq> owner s then Inl NotOwner
      else if \<not> paused s then Inl Paused
      else Inr (s\<lparr>paused := False\<rparr>, [UnpausedContract sender]))"

subsection \<open>The batch ledger\<close>

text \<open>
  \<^verbatim>\<open>Batch storage b = batches[k]\<close> is a reference: a write through it is an update of
  \<open>batches\<close> at \<open>k\<close>. \<^verbatim>\<open>currentBatchId++\<close> is checked.
\<close>

definition openBatch :: "env \<Rightarrow> address \<Rightarrow> state \<Rightarrow> outcome" where
  "openBatch E sender s =
     (if sender \<noteq> owner s then Inl NotOwner
      else if paused s then Inl Paused
      else if active (batches s (currentBatchId s)) then Inl BatchNotActive
      else if currentBatchId s = - 1 then Inl Panic
      else
        let n = currentBatchId s + 1;
            newBatch = (batches s n)
              \<lparr>id' := n, active := True, transactionCount := 0,
               encryptedTotalValue := FHE_asEuint32 E 0,
               encryptedMaxValue := FHE_asEuint32 E 0,
               encryptedMinValue := FHE_asEuint32 E (2 ^ 32 - 1),
               encryptedSuspiciousCount := FHE_asEuint32 E 0\<rparr>
        in Inr (s\<lparr>currentBatchId := n, batches := (batches s)(n := newBatch)\<rparr>,
                [BatchOpened n]))"

text \<open>
  \<open>requestId\<close> is the handle \<^verbatim>\<open>FHE.requestDecryption\<close> returns: chosen by the oracle
  side, so an argument here.
\<close>

definition closeBatch :: "env \<Rightarrow> address \<Rightarrow> state \<Rightarrow> uint256 \<Rightarrow> outcome" where
  "closeBatch E sender s requestId =
     (if sender \<noteq> owner s then Inl NotOwner
      else if paused s then Inl Paused
      else
        let batch = batches s (currentBatchId s) in
        if \<not> active batch then Inl InvalidBatch
        else
          let s1 = s\<lparr>batches := (batches s)(currentBatchId s := batch\<lparr>active := False\<rparr>)\<rparr>;
              closed = BatchClosed (currentBatchId s) (transactionCount batch)
          in
          if transactionCount batch > 0 then
            let cts = [toBytes32 (encryptedTotalValue batch),
                       toBytes32 (encryptedMaxValue batch),
                       toBytes32 (encryptedMinValue batch),
                       toBytes32 (encryptedSuspiciousCount batch)];
                h = hashCiphertexts E cts
            in Inr (s1\<lparr>decryptionContexts := (decryptionContexts s1)
                          (requestId := \<lparr>batchId = currentBatchId s, stateHash = h,
                                         processed = False\<rparr>)\<rparr>,
                    [closed, RequestDecryption cts,
                     DecryptionRequested requestId (currentBatchId s)])
          else Inr (s1, [closed]))"

subsection \<open>Transaction analysis\<close>

text \<open>
  \<^verbatim>\<open>_initIfNeeded(val)\<close> receives the handle by value and drops what \<^verbatim>\<open>FHE.init\<close>
  returns, so neither branch writes to storage.
\<close>

definition initIfNeeded :: "env \<Rightarrow> euint32 \<Rightarrow> state \<Rightarrow> state" where
  "initIfNeeded E val s = (if \<not> FHE_isInitialized E val then s else s)"

definition analyzeTransaction ::
  "env \<Rightarrow> address \<Rightarrow> uint256 \<Rightarrow> state \<Rightarrow> euint32 \<Rightarrow> euint32 \<Rightarrow> euint32 \<Rightarrow> outcome" where
  "analyzeTransaction E sender now s encryptedValue encryptedRecipientScore encryptedThreshold =
     (if \<not> isProvider s sender then Inl NotProvider
      else if paused s then Inl Paused
      else if 2 ^ 256 \<le> uint (lastSubmissionTime s sender) + uint (cooldownSeconds s)
        then Inl Panic
      else if now < lastSubmissionTime s sender + cooldownSeconds s then Inl CooldownActive
      else
        let s1 = s\<lparr>lastSubmissionTime := (lastSubmissionTime s)(sender := now)\<rparr>;
            batch = batches s1 (currentBatchId s1)
        in
        if \<not> active batch then Inl InvalidBatch
        else
          let s2 = fold (initIfNeeded E)
                     [encryptedValue, encryptedRecipientScore, encryptedThreshold,
                      encryptedTotalValue batch, encryptedMaxValue batch,
                      encryptedMinValue batch, encryptedSuspiciousCount batch] s1;
              isSuspicious = FHE_ge E encryptedRecipientScore encryptedThreshold;
              batch1 = batch
                \<lparr>encryptedTotalValue := FHE_add E (encryptedTotalValue batch) encryptedValue,
                 encryptedMaxValue := FHE_max E (encryptedMaxValue batch) encryptedValue,
                 encryptedMinValue := FHE_min E (encryptedMinValue batch) encryptedValue,
                 encryptedSuspiciousCount :=
                   FHE_add E (encryptedSuspiciousCount batch)
                     (FHE_ite E isSuspicious (FHE_asEuint32 E 1) (FHE_asEuint32 E 0))\<rparr>
          in
          if transactionCount batch1 = - 1 then Inl Panic
          else
            let batch2 = batch1\<lparr>transactionCount := transactionCount batch1 + 1\<rparr>
            in Inr (s2\<lparr>batches := (batches s2)(currentBatchId s2 := batch2)\<rparr>,
                    [TransactionAnalyzed (currentBatchId s2) (transactionCount batch2)]))"

subsection \<open>The decryption callback\<close>

definition myCallback ::
  "env \<Rightarrow> address \<Rightarrow> state \<Rightarrow> uint256 \<Rightarrow> bytes \<Rightarrow> bytes \<Rightarrow> outcome" where
  "myCallback E sender s requestId cleartexts proof =
     (let ctx = decryptionContexts s requestId in
      if processed ctx then Inl ReplayDetected
      else
        let batch = batches s (batchId ctx) in
        if \<not> active batch then Inl InvalidBatch
        else
          let cts = [toBytes32 (encryptedTotalValue batch),
                     toBytes32 (encryptedMaxValue batch),
                     toBytes32 (encryptedMinValue batch),
                     toBytes32 (encryptedSuspiciousCount batch)];
              currentHash = hashCiphertexts E cts
          in
          if currentHash \<noteq> stateHash ctx then Inl StateMismatch
          else if \<not> FHE_checkSignatures E requestId cleartexts proof then Inl InvalidProof
          else
            case (decodeAt cleartexts 0, decodeAt cleartexts 32,
                  decodeAt cleartexts 64, decodeAt cleartexts 96) of
              (Some totalValue, Some maxValue, Some minValue, Some suspiciousCount) \<Rightarrow>
                Inr (s\<lparr>decryptionContexts := (decryptionContexts s)
                          (requestId := ctx\<lparr>processed := True\<rparr>)\<rparr>,
                     [DecryptionCompleted requestId (batchId ctx)
                        totalValue maxValue minValue suspiciousCount])
            | _ \<Rightarrow> Inl DecodeFailed)"

subsection \<open>Transactions and reachable states\<close>

text \<open>
  The external functions as a datatype, so that a property of "every operation" is a
  property of \<open>exec\<close>. \<open>CloseBatch r\<close> carries the handle the oracle hands out in that
  transaction.
\<close>

datatype call =
    TransferOwnership address
  | AddProvider address
  | RemoveProvider address
  | SetCooldownSeconds uint256
  | Pause
  | Unpause
  | OpenBatch
  | CloseBatch uint256
  | AnalyzeTransaction euint32 euint32 euint32
  | MyCallback uint256 bytes bytes

fun exec :: "env \<Rightarrow> address \<Rightarrow> uint256 \<Rightarrow> call \<Rightarrow> state \<Rightarrow> outcome" where
  "exec E sender now (TransferOwnership a) s = transferOwnership sender s a"
| "exec E sender now (AddProvider a) s = addProvider sender s a"
| "exec E sender now (RemoveProvider a) s = removeProvider sender s a"
| "exec E sender now (SetCooldownSeconds c) s = setCooldownSeconds sender s c"
| "exec E sender now Pause s = pause sender s"
| "exec E sender now Unpause s = unpause sender s"
| "exec E sender now OpenBatch s = openBatch E sender s"
| "exec E sender now (CloseBatch r) s = closeBatch E sender s r"
| "exec E sender now (AnalyzeTransaction v r t) s = analyzeTransaction E sender now s v r t"
| "exec E sender now (MyCallback r c p) s = myCallback E sender s r c p"

text \<open>
  A sequence of transactions, each with its sender and block time. A transaction that
  reverts leaves the storage as it was.
\<close>

fun run :: "env \<Rightarrow> (address \<times> uint256 \<times> call) list \<Rightarrow> state \<Rightarrow> state" where
  "run E [] s = s"
| "run E ((sender, now, c) # txs) s =
     (case exec E sender now c s of
        Inl e \<Rightarrow> run E txs s
      | Inr (s', effs) \<Rightarrow> run E txs s')"

inductive reachable :: "env \<Rightarrow> state \<Rightarrow> bool" for E :: env where
  deployed: "reachable E (constructor a)"
| transact: "reachable E s \<Longrightarrow> exec E sender now c s = Inr (s', effs) \<Longrightarrow> reachable E s'"


subsection \<open>A transparent capability, to run the contract on concrete inputs\<close>

text \<open>
  An instance of \<open>env\<close> in which a handle is the plaintext plus one (so that the handle of
  an assigned value is never the zero handle), the digest is a polynomial of the slots and
  a proof is valid when it is the single byte \<open>1\<close>. It stands for no cryptography; it
  only lets the functions above be evaluated.
\<close>

definition plain :: "bytes32 \<Rightarrow> uint32" where
  "plain h = (if h = 0 then 0 else ucast (h - 1))"

definition enc :: "uint32 \<Rightarrow> bytes32" where
  "enc v = ucast v + 1"

definition clearEnv :: env where
  "clearEnv =
     \<lparr>FHE_asEuint32 = enc,
      FHE_add = (\<lambda>a b. enc (plain a + plain b)),
      FHE_max = (\<lambda>a b. enc (max (plain a) (plain b))),
      FHE_min = (\<lambda>a b. enc (min (plain a) (plain b))),
      FHE_ge = (\<lambda>a b. enc (if plain b \<le> plain a then 1 else 0)),
      FHE_ite = (\<lambda>c a b. if plain c \<noteq> 0 then a else b),
      FHE_isInitialized = (\<lambda>h. h \<noteq> 0),
      FHE_checkSignatures = (\<lambda>r c p. p = [1]),
      keccak256 = foldl (\<lambda>acc w. 31 * acc + w) 7,
      thisAddress = 0xC0\<rparr>"

text \<open>The payload the oracle returns for four cleartexts: each in one 32-byte slot.\<close>

definition payload :: "8 word \<Rightarrow> 8 word \<Rightarrow> 8 word \<Rightarrow> 8 word \<Rightarrow> bytes" where
  "payload a b c d =
     replicate 31 0 @ [a] @ replicate 31 0 @ [b] @ replicate 31 0 @ [c] @ replicate 31 0 @ [d]"

text \<open>
  The life of one batch. The owner \<open>0xA\<close> deploys, registers the provider \<open>0xB\<close> and
  opens batch 1 (\<open>openedState\<close>); at time 100 the provider submits value 10 with score 5
  against threshold 5 (\<open>analyzedState\<close>); the owner closes the batch and the request gets
  handle 0 (\<open>closedBatchState\<close>).
\<close>

definition openedState :: state where
  "openedState = run clearEnv [(0xA, 1, AddProvider 0xB), (0xA, 2, OpenBatch)] (constructor 0xA)"

definition analyzedState :: state where
  "analyzedState =
     run clearEnv [(0xB, 100, AnalyzeTransaction (enc 10) (enc 5) (enc 5))] openedState"

definition closedBatchState :: state where
  "closedBatchState = run clearEnv [(0xA, 200, CloseBatch 0)] analyzedState"


text \<open>
  A state in which the callback can pass every check: a request with handle 0 recorded
  against batch 1 while that batch is still active. It is written down directly.
\<close>

definition pendingState :: state where
  "pendingState =
     analyzedState\<lparr>decryptionContexts := (decryptionContexts analyzedState)
       (0 := \<lparr>batchId = 1,
              stateHash = hashCiphertexts clearEnv
                [toBytes32 (encryptedTotalValue (batches analyzedState 1)),
                 toBytes32 (encryptedMaxValue (batches analyzedState 1)),
                 toBytes32 (encryptedMinValue (batches analyzedState 1)),
                 toBytes32 (encryptedSuspiciousCount (batches analyzedState 1))],
              processed = False\<rparr>)\<rparr>"

text \<open>The owner pauses while batch 1 is open, before and after the provider's submission.\<close>

definition pausedOpenState :: state where
  "pausedOpenState = run clearEnv [(0xA, 3, Pause)] openedState"


text \<open>
  What every state of the deployed contract satisfies: no context is processed, no context
  names an active batch, only the current batch can be active, no context names a batch
  beyond the current one, and batch 0 (the one an unwritten context names) is not active.
\<close>

definition ledger_inv :: "state \<Rightarrow> bool" where
  "ledger_inv s \<longleftrightarrow>
     (\<forall>h. \<not> processed (decryptionContexts s h)) \<and>
     (\<forall>h. \<not> active (batches s (batchId (decryptionContexts s h)))) \<and>
     (\<forall>i. active (batches s i) \<longrightarrow> i = currentBatchId s) \<and>
     (\<forall>h. batchId (decryptionContexts s h) \<le> currentBatchId s) \<and>
     \<not> active (batches s 0)"


section \<open>Properties\<close>

subsection \<open>Word arithmetic and the invariant of reachable states\<close>

lemma ledger_inv_constructor: "ledger_inv (constructor a)"
  by (simp add: ledger_inv_def constructor_def emptyBatch_def emptyContext_def)

lemma myCallback_inactive:
  "\<not> processed (decryptionContexts s r) \<Longrightarrow>
   \<not> active (batches s (batchId (decryptionContexts s r))) \<Longrightarrow>
   myCallback E c s r ct pf = Inl InvalidBatch"
  by (simp add: myCallback_def Let_def)

lemma ledger_inv_callback: "ledger_inv s \<Longrightarrow> myCallback E c s r ct pf = Inl InvalidBatch"
  by (simp add: ledger_inv_def myCallback_inactive)

lemma word_less_succ: "(n::'a::len word) \<noteq> - 1 \<Longrightarrow> n < n + 1"
  using inc_less_eq_self_iff_eq [of n] by (simp add: not_le)

lemma word_succ_neq: "(n::'a::len word) \<noteq> - 1 \<Longrightarrow> x \<le> n \<Longrightarrow> x \<noteq> n + 1"
  using word_less_succ [of n] by auto

lemma word_le_succ: "(n::'a::len word) \<noteq> - 1 \<Longrightarrow> x \<le> n \<Longrightarrow> x \<le> n + 1"
  using word_less_succ [of n] by auto

lemma word_gt_zero: "(0 < (x::'a::len word)) = (x \<noteq> 0)"
  by (simp add: word_neq_0_conv)

lemma ledger_inv_openBatch:
  assumes "ledger_inv s" and "openBatch E c s = Inr (s', effs)"
  shows "ledger_inv s'"
proof -
  from assms(2) have ok: "\<not> active (batches s (currentBatchId s))" "currentBatchId s \<noteq> - 1"
    by (auto simp: openBatch_def split: if_splits)
  from assms(2) ok have s': "decryptionContexts s' = decryptionContexts s"
      "currentBatchId s' = currentBatchId s + 1"
      "\<And>i. i \<noteq> currentBatchId s + 1 \<Longrightarrow> batches s' i = batches s i"
    by (auto simp: openBatch_def Let_def split: if_splits)
  have ne: "batchId (decryptionContexts s h) \<noteq> currentBatchId s + 1" for h
    using assms(1) ok(2) by (simp add: ledger_inv_def word_succ_neq)
  have nz: "currentBatchId s + 1 \<noteq> 0"
    using ok(2) max_word_wrap by blast
  have le: "x \<le> currentBatchId s \<Longrightarrow> x \<le> currentBatchId s + 1" for x
    using ok(2) by (rule word_le_succ)
  show ?thesis
    unfolding ledger_inv_def
  proof (intro conjI allI impI)
    fix h show "\<not> processed (decryptionContexts s' h)"
      using assms(1) by (simp add: s' ledger_inv_def)
  next
    fix h show "\<not> active (batches s' (batchId (decryptionContexts s' h)))"
      using assms(1) ne[of h] by (simp add: s' ledger_inv_def)
  next
    fix i assume a: "active (batches s' i)"
    show "i = currentBatchId s'"
    proof (rule ccontr)
      assume "i \<noteq> currentBatchId s'"
      then have "batches s' i = batches s i" by (simp add: s')
      with a have b: "active (batches s i)" by simp
      with assms(1) have "i = currentBatchId s" by (simp add: ledger_inv_def)
      with b ok(1) show False by simp
    qed
  next
    fix h show "batchId (decryptionContexts s' h) \<le> currentBatchId s'"
      using assms(1) le by (simp add: s' ledger_inv_def)
  next
    show "\<not> active (batches s' 0)"
      using assms(1) nz s'(3)[of 0] by (simp add: ledger_inv_def)
  qed
qed


lemma ledger_inv_closeBatch:
  assumes "ledger_inv s" and "closeBatch E c s r = Inr (s', effs)"
  shows "ledger_inv s'"
proof -
  let ?k = "currentBatchId s"
  from assms(2) have act: "active (batches s ?k)"
    by (auto simp: closeBatch_def Let_def split: if_splits)
  from assms(2) have cur: "currentBatchId s' = ?k"
    by (auto simp: closeBatch_def Let_def split: if_splits)
  from assms(2) have bat: "batches s' = (batches s)(?k := (batches s ?k)\<lparr>active := False\<rparr>)"
    by (auto simp: closeBatch_def Let_def split: if_splits)
  from assms(2) have ctx: "decryptionContexts s' h = decryptionContexts s h \<or>
      (batchId (decryptionContexts s' h) = ?k \<and> \<not> processed (decryptionContexts s' h))" for h
    by (auto simp: closeBatch_def Let_def split: if_splits)
  show ?thesis
    unfolding ledger_inv_def
  proof (intro conjI allI impI)
    fix h show "\<not> processed (decryptionContexts s' h)"
      using assms(1) ctx [of h] by (auto simp: ledger_inv_def)
  next
    fix h show "\<not> active (batches s' (batchId (decryptionContexts s' h)))"
      using assms(1) ctx [of h] by (auto simp: bat ledger_inv_def)
  next
    fix i assume "active (batches s' i)"
    then show "i = currentBatchId s'"
      using assms(1) by (auto simp: bat cur ledger_inv_def split: if_splits)
  next
    fix h show "batchId (decryptionContexts s' h) \<le> currentBatchId s'"
      using assms(1) ctx [of h] by (auto simp: cur ledger_inv_def)
  next
    show "\<not> active (batches s' 0)"
      using assms(1) by (simp add: bat ledger_inv_def)
  qed
qed

lemma initIfNeeded_id: "initIfNeeded E v s = s"
  by (simp add: initIfNeeded_def)

lemma analyzeTransaction_Inr:
  assumes "analyzeTransaction E c now s v r t = Inr (s', effs)"
  shows "isProvider s c" "\<not> paused s"
    "uint (lastSubmissionTime s c) + uint (cooldownSeconds s) < 2 ^ 256"
    "\<not> now < lastSubmissionTime s c + cooldownSeconds s"
    "active (batches s (currentBatchId s))"
    "transactionCount (batches s (currentBatchId s)) \<noteq> - 1"
    "s' = s\<lparr>lastSubmissionTime := (lastSubmissionTime s)(c := now),
           batches := (batches s)(currentBatchId s := (batches s (currentBatchId s))
             \<lparr>encryptedTotalValue := FHE_add E (encryptedTotalValue (batches s (currentBatchId s))) v,
              encryptedMaxValue := FHE_max E (encryptedMaxValue (batches s (currentBatchId s))) v,
              encryptedMinValue := FHE_min E (encryptedMinValue (batches s (currentBatchId s))) v,
              encryptedSuspiciousCount :=
                FHE_add E (encryptedSuspiciousCount (batches s (currentBatchId s)))
                  (FHE_ite E (FHE_ge E r t) (FHE_asEuint32 E 1) (FHE_asEuint32 E 0)),
              transactionCount := transactionCount (batches s (currentBatchId s)) + 1\<rparr>)\<rparr>"
    "effs = [TransactionAnalyzed (currentBatchId s)
               (transactionCount (batches s (currentBatchId s)) + 1)]"
  using assms
  by (simp_all add: analyzeTransaction_def initIfNeeded_id Let_def not_le split: if_splits)

lemma ledger_inv_analyzeTransaction:
  assumes "ledger_inv s" and "analyzeTransaction E c now s v r t = Inr (s', effs)"
  shows "ledger_inv s'"
proof -
  let ?k = "currentBatchId s"
  note ok = analyzeTransaction_Inr [OF assms(2)]
  have act: "active (batches s ?k)" by (rule ok(5))
  have same: "currentBatchId s' = ?k" "decryptionContexts s' = decryptionContexts s"
    by (simp_all add: ok(7))
  have bat: "active (batches s' ?k)" "\<And>i. i \<noteq> ?k \<Longrightarrow> batches s' i = batches s i"
    using act by (simp_all add: ok(7))
  have ne: "batchId (decryptionContexts s h) \<noteq> ?k" for h
    using assms(1) act unfolding ledger_inv_def by metis
  have nz: "?k \<noteq> 0"
    using assms(1) act unfolding ledger_inv_def by metis
  show ?thesis
    unfolding ledger_inv_def
  proof (intro conjI allI impI)
    fix h show "\<not> processed (decryptionContexts s' h)"
      using assms(1) by (simp add: same ledger_inv_def)
  next
    fix h show "\<not> active (batches s' (batchId (decryptionContexts s' h)))"
      using assms(1) ne [of h] by (simp add: same bat(2) ledger_inv_def)
  next
    fix i assume a: "active (batches s' i)"
    show "i = currentBatchId s'"
    proof (rule ccontr)
      assume "i \<noteq> currentBatchId s'"
      then have "batches s' i = batches s i" by (simp add: same bat(2))
      with a have "active (batches s i)" by simp
      with assms(1) have "i = ?k" by (simp add: ledger_inv_def)
      with \<open>i \<noteq> currentBatchId s'\<close> show False by (simp add: same)
    qed
  next
    fix h show "batchId (decryptionContexts s' h) \<le> currentBatchId s'"
      using assms(1) by (simp add: same ledger_inv_def)
  next
    show "\<not> active (batches s' 0)"
      using assms(1) nz bat(2) [of 0] by (simp add: ledger_inv_def)
  qed
qed

lemma ledger_inv_exec:
  assumes "ledger_inv s" and "exec E c now op s = Inr (s', effs)"
  shows "ledger_inv s'"
proof (cases op)
  case OpenBatch
  with assms show ?thesis by (simp add: ledger_inv_openBatch)
next
  case (CloseBatch r)
  with assms show ?thesis by (simp add: ledger_inv_closeBatch)
next
  case (AnalyzeTransaction v r t)
  with assms show ?thesis by (simp add: ledger_inv_analyzeTransaction)
next
  case (MyCallback r ct pf)
  with assms show ?thesis by (simp add: ledger_inv_callback)
qed (use assms in \<open>auto simp: ledger_inv_def transferOwnership_def addProvider_def
       removeProvider_def setCooldownSeconds_def pause_def unpause_def split: if_splits\<close>)

lemma reachable_ledger_inv: "reachable E s \<Longrightarrow> ledger_inv s"
  by (induction rule: reachable.induct) (auto intro: ledger_inv_constructor ledger_inv_exec)

lemma reachable_callback_fails:
  "reachable E s \<Longrightarrow> myCallback E c s r ct pf = Inl InvalidBatch"
  by (simp add: reachable_ledger_inv ledger_inv_callback)



subsection \<open>The scenario states, evaluated\<close>

lemma openedState_eq:
  "openedState =
     \<lparr>owner = 0xA, isProvider = (\<lambda>_. False)(0xB := True),
      lastSubmissionTime = (\<lambda>_. 0),
      lastDecryptionRequestTime = (\<lambda>_. 0), cooldownSeconds = 30, paused = False,
      currentBatchId = 1,
      batches = (\<lambda>_. emptyBatch)
        (1 := \<lparr>id' = 1, active = True, transactionCount = 0, encryptedTotalValue = 1,
               encryptedMaxValue = 1, encryptedMinValue = 4294967296,
               encryptedSuspiciousCount = 1\<rparr>),
      decryptionContexts = (\<lambda>_. emptyContext)\<rparr>"
  by (simp add: openedState_def constructor_def addProvider_def openBatch_def clearEnv_def
      enc_def emptyBatch_def Let_def)

lemma analyzedState_eq:
  "analyzedState =
     \<lparr>owner = 0xA, isProvider = (\<lambda>_. False)(0xB := True),
      lastSubmissionTime = (\<lambda>_. 0)(0xB := 100),
      lastDecryptionRequestTime = (\<lambda>_. 0), cooldownSeconds = 30, paused = False,
      currentBatchId = 1,
      batches = (\<lambda>_. emptyBatch)
        (1 := \<lparr>id' = 1, active = True, transactionCount = 1, encryptedTotalValue = 11,
               encryptedMaxValue = 11, encryptedMinValue = 11,
               encryptedSuspiciousCount = 2\<rparr>),
      decryptionContexts = (\<lambda>_. emptyContext)\<rparr>"
  by (simp add: analyzedState_def openedState_eq analyzeTransaction_def initIfNeeded_id
      clearEnv_def enc_def plain_def Let_def)

lemma closedBatchState_eq:
  "closedBatchState =
     \<lparr>owner = 0xA, isProvider = (\<lambda>_. False)(0xB := True),
      lastSubmissionTime = (\<lambda>_. 0)(0xB := 100),
      lastDecryptionRequestTime = (\<lambda>_. 0), cooldownSeconds = 30, paused = False,
      currentBatchId = 1,
      batches = (\<lambda>_. emptyBatch)
        (1 := \<lparr>id' = 1, active = False, transactionCount = 1, encryptedTotalValue = 11,
               encryptedMaxValue = 11, encryptedMinValue = 11,
               encryptedSuspiciousCount = 2\<rparr>),
      decryptionContexts = (\<lambda>_. emptyContext)
        (0 := \<lparr>batchId = 1, stateHash = hashCiphertexts clearEnv [11, 11, 11, 2],
               processed = False\<rparr>)\<rparr>"
  by (simp add: closedBatchState_def analyzedState_eq closeBatch_def toBytes32_def Let_def)



lemma foldl_zero_bytes:
  "foldl (\<lambda>acc b. acc * 256 + ucast b) (0::uint256) (replicate n (0::8 word)) = 0"
  by (induction n) simp_all

lemma decode_payload:
  "decodeAt (payload 10 10 10 1) 0 = Some 10" "decodeAt (payload 10 10 10 1) 32 = Some 10"
  "decodeAt (payload 10 10 10 1) 64 = Some 10" "decodeAt (payload 10 10 10 1) 96 = Some 1"
  by (simp_all add: decodeAt_def payload_def slice_def abi_decode_uint256_def foldl_zero_bytes)

lemma myCallback_state_mismatch:
  "\<not> processed (decryptionContexts s r) \<Longrightarrow>
   active (batches s (batchId (decryptionContexts s r))) \<Longrightarrow>
   hashCiphertexts E
     [toBytes32 (encryptedTotalValue (batches s (batchId (decryptionContexts s r)))),
      toBytes32 (encryptedMaxValue (batches s (batchId (decryptionContexts s r)))),
      toBytes32 (encryptedMinValue (batches s (batchId (decryptionContexts s r)))),
      toBytes32 (encryptedSuspiciousCount (batches s (batchId (decryptionContexts s r))))]
     \<noteq> stateHash (decryptionContexts s r) \<Longrightarrow>
   myCallback E c s r ct pf = Inl StateMismatch"
  by (simp add: myCallback_def Let_def)






lemma pendingState_eq:
  "pendingState =
     \<lparr>owner = 0xA, isProvider = (\<lambda>_. False)(0xB := True),
      lastSubmissionTime = (\<lambda>_. 0)(0xB := 100),
      lastDecryptionRequestTime = (\<lambda>_. 0), cooldownSeconds = 30, paused = False,
      currentBatchId = 1,
      batches = (\<lambda>_. emptyBatch)
        (1 := \<lparr>id' = 1, active = True, transactionCount = 1, encryptedTotalValue = 11,
               encryptedMaxValue = 11, encryptedMinValue = 11,
               encryptedSuspiciousCount = 2\<rparr>),
      decryptionContexts = (\<lambda>_. emptyContext)
        (0 := \<lparr>batchId = 1, stateHash = hashCiphertexts clearEnv [11, 11, 11, 2],
               processed = False\<rparr>)\<rparr>"
  by (simp add: pendingState_def analyzedState_eq toBytes32_def)

lemma pendingState_callback:
  "myCallback clearEnv 0xD pendingState 0 (payload 10 10 10 1) [1] =
     Inr (pendingState\<lparr>decryptionContexts := (decryptionContexts pendingState)
            (0 := \<lparr>batchId = 1, stateHash = hashCiphertexts clearEnv [11, 11, 11, 2],
                   processed = True\<rparr>)\<rparr>,
          [DecryptionCompleted 0 1 10 10 10 1])"
  by (simp add: pendingState_eq myCallback_def toBytes32_def decode_payload clearEnv_def)


subsection \<open>The decryption callback\<close>

text \<open>
  C1. The callback should fail when the batch its context names is still active, and go
  on to the commitment check when that batch has been closed. Line 185 of the contract
  tests the opposite, \<^verbatim>\<open>if (!batch.active) revert InvalidBatch()\<close>, under the comment
  "Batch should have been closed". Evaluated on the scenario: after the close, the context
  of handle 0 names batch 1, batch 1 is not active, the recomputed commitment equals the
  stored one and the proof is valid, and the callback reverts with \<open>InvalidBatch\<close>;
  in \<open>pendingState\<close>, where the batch named is still active, the callback is not
  rejected.
  By \<open>reachable_callback_fails\<close> the same holds in every reachable state, for every
  handle, payload and proof.
\<close>

theorem callback_after_close_rejected:
  "decryptionContexts closedBatchState 0 =
     \<lparr>batchId = 1, stateHash = hashCiphertexts clearEnv [11, 11, 11, 2], processed = False\<rparr>
   \<and> \<not> active (batches closedBatchState 1)
   \<and> hashCiphertexts clearEnv
        [toBytes32 (encryptedTotalValue (batches closedBatchState 1)),
         toBytes32 (encryptedMaxValue (batches closedBatchState 1)),
         toBytes32 (encryptedMinValue (batches closedBatchState 1)),
         toBytes32 (encryptedSuspiciousCount (batches closedBatchState 1))]
       = stateHash (decryptionContexts closedBatchState 0)
   \<and> FHE_checkSignatures clearEnv 0 (payload 10 10 10 1) [1]
   \<and> myCallback clearEnv 0xD closedBatchState 0 (payload 10 10 10 1) [1] = Inl InvalidBatch
   \<and> active (batches pendingState (batchId (decryptionContexts pendingState 0)))
   \<and> myCallback clearEnv 0xD pendingState 0 (payload 10 10 10 1) [1] \<noteq> Inl InvalidBatch"
proof (intro conjI)
  show "myCallback clearEnv 0xD pendingState 0 (payload 10 10 10 1) [1] \<noteq> Inl InvalidBatch"
    by (simp add: pendingState_callback)
  show "active (batches pendingState (batchId (decryptionContexts pendingState 0)))"
    by (simp add: pendingState_eq)
qed (simp_all add: closedBatchState_eq myCallback_def toBytes32_def clearEnv_def)


text \<open>
  C2, as stated, fails: a callback for a handle that was never recorded does not fail with
  a dedicated unknown-request error before every other check. The contract declares no
  such error and has no lookup step; the handle reads as the empty context and the call
  runs into the ordinary checks. On the freshly deployed contract, handle 7 is rejected
  with \<open>InvalidBatch\<close>.
\<close>

theorem unknown_request_counterexample:
  "decryptionContexts (constructor 0xA) 7 = emptyContext
   \<and> myCallback clearEnv 0xD (constructor 0xA) 7 (payload 10 10 10 1) [1] = Inl InvalidBatch"
  by (simp add: constructor_def myCallback_def emptyContext_def emptyBatch_def)


text \<open>
  C2, amended. In every reachable state, a callback for a handle whose context is the
  empty one fails, for every caller, payload and proof, and not as a replay: it passes the
  processed test and is rejected by the checks after it. A failed call leaves the storage
  as it was.
\<close>

theorem unknown_request_rejected:
  assumes "reachable E s" and "decryptionContexts s r = emptyContext"
  shows "\<exists>e. myCallback E c s r ct pf = Inl e \<and> e \<noteq> ReplayDetected"
  using assms(1) by (simp add: reachable_callback_fails)

theorem unknown_request_rejected_witness:
  "reachable clearEnv (constructor 0xA)
   \<and> decryptionContexts (constructor 0xA) 7 = emptyContext
   \<and> (\<exists>e. myCallback clearEnv 0xD (constructor 0xA) 7 (payload 10 10 10 1) [1] = Inl e
          \<and> e \<noteq> ReplayDetected)"
proof -
  have r: "reachable clearEnv (constructor 0xA)" by (rule reachable.deployed)
  have c: "decryptionContexts (constructor 0xA) 7 = emptyContext"
    by (simp add: constructor_def)
  show ?thesis
    using r c unknown_request_rejected [OF r c, of "0xD" "payload 10 10 10 1" "[1]"] by simp
qed










text \<open>
  C10. The callback has no modifier: it does not read \<^verbatim>\<open>msg.sender\<close> and does not
  read \<open>paused\<close>. Two invocations with the same handle, payload and proof on storages
  that differ at most in the pause flag, from any two callers, give the same result: the
  same error, or success with the same events and the same storage up to the flag.
\<close>

theorem myCallback_ignores_caller_and_pause:
  "myCallback E c1 (s\<lparr>paused := p1\<rparr>) r ct pf =
     map_sum id (\<lambda>(s', effs). (s'\<lparr>paused := p1\<rparr>, effs))
       (myCallback E c2 (s\<lparr>paused := p2\<rparr>) r ct pf)
   \<and> map_sum id snd (myCallback E c1 (s\<lparr>paused := p1\<rparr>) r ct pf) =
     map_sum id snd (myCallback E c2 (s\<lparr>paused := p2\<rparr>) r ct pf)"
  by (simp add: myCallback_def Let_def split: option.splits)

subsection \<open>The batch ledger\<close>

text \<open>
  C8. A successful open-batch moves the current identifier up by exactly one, without
  wrap-around, and the batch stored under the new identifier is active, with count 0 and
  with the accumulators the encryptions of 0 (sum), 0 (max), \<open>2 ^ 32 - 1\<close> (min) and 0
  (suspicious count). The first open-batch after deployment succeeds for the deployer
  and allocates identifier 1. For a 32-bit value 0 is the least and \<open>2 ^ 32 - 1\<close> the
  greatest.
\<close>

theorem openBatch_allocates:
  "(openBatch E sender s = Inr (s', effs) \<longrightarrow>
      currentBatchId s' = currentBatchId s + 1
      \<and> uint (currentBatchId s') = uint (currentBatchId s) + 1
      \<and> batches s' (currentBatchId s') =
          \<lparr>id' = currentBatchId s + 1, active = True, transactionCount = 0,
           encryptedTotalValue = FHE_asEuint32 E 0,
           encryptedMaxValue = FHE_asEuint32 E 0,
           encryptedMinValue = FHE_asEuint32 E (2 ^ 32 - 1),
           encryptedSuspiciousCount = FHE_asEuint32 E 0\<rparr>
      \<and> effs = [BatchOpened (currentBatchId s + 1)])
   \<and> (\<exists>s1 effs1. openBatch E deployer (constructor deployer) = Inr (s1, effs1)
          \<and> currentBatchId s1 = 1)
   \<and> (\<forall>x :: uint32. 0 \<le> x \<and> x \<le> 2 ^ 32 - 1)
   \<and> uint (2 ^ 32 - 1 :: uint32) = 2 ^ 32 - 1"
proof (intro conjI impI)
  assume a: "openBatch E sender s = Inr (s', effs)"
  then have ne: "currentBatchId s \<noteq> - 1"
    by (auto simp: openBatch_def split: if_splits)
  from a show "currentBatchId s' = currentBatchId s + 1"
    by (auto simp: openBatch_def Let_def split: if_splits)
  then show "uint (currentBatchId s') = uint (currentBatchId s) + 1"
    using word_less_succ [OF ne] by (metis less_imp_le uint_1 uint_plus_simple)
  from a show "batches s' (currentBatchId s') =
          \<lparr>id' = currentBatchId s + 1, active = True, transactionCount = 0,
           encryptedTotalValue = FHE_asEuint32 E 0,
           encryptedMaxValue = FHE_asEuint32 E 0,
           encryptedMinValue = FHE_asEuint32 E (2 ^ 32 - 1),
           encryptedSuspiciousCount = FHE_asEuint32 E 0\<rparr>"
    by (auto simp: openBatch_def Let_def split: if_splits)
  from a show "effs = [BatchOpened (currentBatchId s + 1)]"
    by (auto simp: openBatch_def Let_def split: if_splits)
next
  show "\<exists>s1 effs1. openBatch E deployer (constructor deployer) = Inr (s1, effs1)
          \<and> currentBatchId s1 = 1"
    by (simp add: openBatch_def constructor_def emptyBatch_def Let_def)
next
  have m: "(2 ^ 32 - 1 :: uint32) = - 1" by simp
  show "\<forall>x :: uint32. 0 \<le> x \<and> x \<le> 2 ^ 32 - 1"
    unfolding m by simp
next
  show "uint (2 ^ 32 - 1 :: uint32) = 2 ^ 32 - 1"
    by simp
qed

theorem openBatch_allocates_witness:
  "openBatch clearEnv 0xA closedBatchState =
     Inr (closedBatchState\<lparr>currentBatchId := 2,
            batches := (batches closedBatchState)
              (2 := \<lparr>id' = 2, active = True, transactionCount = 0,
                     encryptedTotalValue = enc 0, encryptedMaxValue = enc 0,
                     encryptedMinValue = enc (2 ^ 32 - 1),
                     encryptedSuspiciousCount = enc 0\<rparr>)\<rparr>,
          [BatchOpened 2])
   \<and> currentBatchId closedBatchState = 1"
  using openBatch_allocates [of clearEnv "0xA" closedBatchState
      "closedBatchState\<lparr>currentBatchId := 2,
            batches := (batches closedBatchState)
              (2 := \<lparr>id' = 2, active = True, transactionCount = 0,
                     encryptedTotalValue = enc 0, encryptedMaxValue = enc 0,
                     encryptedMinValue = enc (2 ^ 32 - 1),
                     encryptedSuspiciousCount = enc 0\<rparr>)\<rparr>" "[BatchOpened 2]"]
  by (simp add: closedBatchState_eq openBatch_def clearEnv_def Let_def emptyBatch_def)

text \<open>
  C7, as stated, fails: an owner's open-batch while the current batch is active does not
  always fail with the batch-already-open error (\<open>BatchNotActive\<close> in the contract). The
  modifier \<^verbatim>\<open>whenNotPaused\<close> runs first: with batch 1 open and the contract paused, the
  owner's open-batch reverts with \<open>Paused\<close>.
\<close>

theorem openBatch_paused_counterexample:
  "0xA = owner pausedOpenState
   \<and> active (batches pausedOpenState (currentBatchId pausedOpenState))
   \<and> openBatch clearEnv 0xA pausedOpenState = Inl Paused
   \<and> openBatch clearEnv 0xA pausedOpenState \<noteq> Inl BatchNotActive"
  by (simp add: pausedOpenState_def openedState_eq pause_def openBatch_def)

text \<open>
  C7, amended. While the contract is not paused: an owner's open-batch with the current
  batch active fails with \<open>BatchNotActive\<close> (the batch-already-open error), and an
  owner's close-batch with no active current batch fails with \<open>InvalidBatch\<close> (the
  no-active-batch error). A failed call leaves the storage as it was.
\<close>

theorem lifecycle_errors:
  "(sender = owner s \<longrightarrow> \<not> paused s \<longrightarrow> active (batches s (currentBatchId s)) \<longrightarrow>
      openBatch E sender s = Inl BatchNotActive)
   \<and> (sender' = owner s' \<longrightarrow> \<not> paused s' \<longrightarrow> \<not> active (batches s' (currentBatchId s')) \<longrightarrow>
      closeBatch E sender' s' requestId = Inl InvalidBatch)"
  by (simp add: openBatch_def closeBatch_def Let_def)

theorem lifecycle_errors_witness:
  "0xA = owner openedState \<and> \<not> paused openedState
   \<and> active (batches openedState (currentBatchId openedState))
   \<and> openBatch clearEnv 0xA openedState = Inl BatchNotActive
   \<and> 0xA = owner closedBatchState \<and> \<not> paused closedBatchState
   \<and> \<not> active (batches closedBatchState (currentBatchId closedBatchState))
   \<and> closeBatch clearEnv 0xA closedBatchState 1 = Inl InvalidBatch"
  using lifecycle_errors [of "0xA" openedState clearEnv "0xA" closedBatchState 1]
  by (simp add: openedState_eq closedBatchState_eq)

text \<open>
  C6. An owner's close of the active current batch, the contract not being paused. If the
  batch has count 0, the only effect is the closed event: no request to the oracle, the
  contexts untouched, the batch still stored with its count and \<open>active = False\<close>.
  Otherwise exactly one request goes to the oracle, over the sum, max, min and suspicious
  count in this order, and one context is recorded under the handle returned, naming the
  batch, holding the commitment to these four handles, with \<open>processed = False\<close>.
\<close>

theorem closeBatch_effects:
  assumes "sender = owner s" and "\<not> paused s" and "active (batches s (currentBatchId s))"
  shows "closeBatch E sender s requestId =
     (if transactionCount (batches s (currentBatchId s)) = 0
      then Inr (s\<lparr>batches := (batches s)
                   (currentBatchId s := (batches s (currentBatchId s))\<lparr>active := False\<rparr>)\<rparr>,
                [BatchClosed (currentBatchId s) 0])
      else Inr (s\<lparr>batches := (batches s)
                   (currentBatchId s := (batches s (currentBatchId s))\<lparr>active := False\<rparr>),
                  decryptionContexts := (decryptionContexts s)
                   (requestId :=
                      \<lparr>batchId = currentBatchId s,
                       stateHash = hashCiphertexts E
                         [encryptedTotalValue (batches s (currentBatchId s)),
                          encryptedMaxValue (batches s (currentBatchId s)),
                          encryptedMinValue (batches s (currentBatchId s)),
                          encryptedSuspiciousCount (batches s (currentBatchId s))],
                       processed = False\<rparr>)\<rparr>,
                [BatchClosed (currentBatchId s) (transactionCount (batches s (currentBatchId s))),
                 RequestDecryption
                   [encryptedTotalValue (batches s (currentBatchId s)),
                    encryptedMaxValue (batches s (currentBatchId s)),
                    encryptedMinValue (batches s (currentBatchId s)),
                    encryptedSuspiciousCount (batches s (currentBatchId s))],
                 DecryptionRequested requestId (currentBatchId s)]))"
  using assms by (simp add: closeBatch_def Let_def toBytes32_def word_gt_zero)

theorem closeBatch_effects_witness:
  "0xA = owner openedState \<and> \<not> paused openedState
   \<and> active (batches openedState (currentBatchId openedState))
   \<and> transactionCount (batches openedState (currentBatchId openedState)) = 0
   \<and> closeBatch clearEnv 0xA openedState 0 =
       Inr (openedState\<lparr>batches := (batches openedState)
              (1 := (batches openedState 1)\<lparr>active := False\<rparr>)\<rparr>,
            [BatchClosed 1 0])
   \<and> 0xA = owner analyzedState \<and> \<not> paused analyzedState
   \<and> active (batches analyzedState (currentBatchId analyzedState))
   \<and> transactionCount (batches analyzedState (currentBatchId analyzedState)) = 1
   \<and> closeBatch clearEnv 0xA analyzedState 0 =
       Inr (closedBatchState,
            [BatchClosed 1 1, RequestDecryption [11, 11, 11, 2], DecryptionRequested 0 1])"
  using closeBatch_effects [of "0xA" openedState clearEnv 0]
    closeBatch_effects [of "0xA" analyzedState clearEnv 0]
  by (simp add: openedState_eq analyzedState_eq closedBatchState_eq)

subsection \<open>Transaction analysis\<close>

text \<open>
  C5. Every accepted analyze-transaction call came from a provider, with the contract not
  paused, the cooldown elapsed and the current batch active; it replaces the current
  batch by the one with sum \<open>add sum value\<close>, max \<open>max max value\<close>, min
  \<open>min min value\<close>, suspicious count \<open>add count (select (ge score threshold) 1 0)\<close> and
  the transaction count one higher (no wrap-around), leaves every other batch alone and
  emits the analyzed event with the new count.
\<close>

theorem analyzeTransaction_accepted:
  assumes "analyzeTransaction E sender now s v r t = Inr (s', effs)"
  shows "isProvider s sender \<and> \<not> paused s
     \<and> uint (lastSubmissionTime s sender) + uint (cooldownSeconds s) \<le> uint now
     \<and> active (batches s (currentBatchId s))
     \<and> currentBatchId s' = currentBatchId s
     \<and> batches s' = (batches s)(currentBatchId s := (batches s (currentBatchId s))
          \<lparr>encryptedTotalValue :=
             FHE_add E (encryptedTotalValue (batches s (currentBatchId s))) v,
           encryptedMaxValue :=
             FHE_max E (encryptedMaxValue (batches s (currentBatchId s))) v,
           encryptedMinValue :=
             FHE_min E (encryptedMinValue (batches s (currentBatchId s))) v,
           encryptedSuspiciousCount :=
             FHE_add E (encryptedSuspiciousCount (batches s (currentBatchId s)))
               (FHE_ite E (FHE_ge E r t) (FHE_asEuint32 E 1) (FHE_asEuint32 E 0)),
           transactionCount := transactionCount (batches s (currentBatchId s)) + 1\<rparr>)
     \<and> uint (transactionCount (batches s' (currentBatchId s))) =
         uint (transactionCount (batches s (currentBatchId s))) + 1
     \<and> effs = [TransactionAnalyzed (currentBatchId s)
                 (transactionCount (batches s' (currentBatchId s)))]"
proof -
  note ok = analyzeTransaction_Inr [OF assms]
  have le: "lastSubmissionTime s sender + cooldownSeconds s \<le> now"
    using ok(4) by (simp add: not_less)
  have sum: "uint (lastSubmissionTime s sender + cooldownSeconds s) =
      uint (lastSubmissionTime s sender) + uint (cooldownSeconds s)"
    using ok(3) by (simp add: uint_add_lem [THEN iffD1])
  have cool: "uint (lastSubmissionTime s sender) + uint (cooldownSeconds s) \<le> uint now"
    using le sum by (simp add: word_le_def)
  have lt: "transactionCount (batches s (currentBatchId s)) <
      transactionCount (batches s (currentBatchId s)) + 1"
    using ok(6) by (rule word_less_succ)
  have cnt: "uint (transactionCount (batches s (currentBatchId s)) + 1) =
      uint (transactionCount (batches s (currentBatchId s))) + 1"
    using lt by (metis less_imp_le uint_1 uint_plus_simple)
  show ?thesis
    using ok(1,2,5) cool cnt by (simp add: ok(7) ok(8))
qed

theorem analyzeTransaction_accepted_witness:
  "analyzeTransaction clearEnv 0xB 100 openedState (enc 10) (enc 5) (enc 5) =
     Inr (analyzedState, [TransactionAnalyzed 1 1])
   \<and> batches analyzedState 1 =
       \<lparr>id' = 1, active = True, transactionCount = 1, encryptedTotalValue = enc 10,
        encryptedMaxValue = enc 10, encryptedMinValue = enc 10,
        encryptedSuspiciousCount = enc 1\<rparr>
   \<and> batches openedState 1 =
       \<lparr>id' = 1, active = True, transactionCount = 0, encryptedTotalValue = enc 0,
        encryptedMaxValue = enc 0, encryptedMinValue = enc (2 ^ 32 - 1),
        encryptedSuspiciousCount = enc 0\<rparr>"
proof -
  have run: "analyzeTransaction clearEnv 0xB 100 openedState (enc 10) (enc 5) (enc 5) =
     Inr (analyzedState, [TransactionAnalyzed 1 1])"
    by (simp add: analyzedState_eq openedState_eq analyzeTransaction_def initIfNeeded_id
        clearEnv_def enc_def plain_def Let_def)
  show ?thesis
    using analyzeTransaction_accepted [OF run] run
    by (simp add: analyzedState_eq openedState_eq enc_def plain_def clearEnv_def)
qed




end
